theory Spec2Isabelle
  imports Complex_Main
begin

section \<open>Numbers, defaults and optional chaining\<close>

text \<open>
  The services compute with JavaScript numbers. They are modelled as real numbers: the
  decimal literals of the source (0.3, 0.35, 50000, ...) denote themselves, and the values
  NaN and Infinity as well as binary rounding are outside the model, with two exceptions.
  In \<open>calculateMaxDrawdown\<close> a division by zero is part of the control flow and is
  written out. In \<open>calculateInvestmentAmount\<close> computed products are compared with each
  other, so that rounding decides the branch: there the arithmetic is a parameter
  (\<open>FloatOps\<close>). Dates are integers (milliseconds since the epoch); \<open>Date.now()\<close> and
  \<open>Math.random()\<close> are parameters of the functions that call them.

  \<open>x || d\<close> on a number yields \<open>d\<close> when \<open>x\<close> is undefined or zero.
\<close>

definition jsOr :: "real option \<Rightarrow> real \<Rightarrow> real" where
  "jsOr v d = (case v of None \<Rightarrow> d | Some x \<Rightarrow> (if x = 0 then d else x))"

section \<open>Token schema (token.schema.ts)\<close>

datatype RiskLevel = LOW | MEDIUM | HIGH | CRITICAL

record SecurityFlags =
  isHoneypot :: bool
  hasRugPullRisk :: bool
  ownershipRenounced :: bool
  hasLockingMechanism :: bool
  hasUnlimitedMinting :: bool
  hasBlacklist :: bool
  hasWhitelist :: bool
  hasPausableFunctionality :: bool

record LiquidityInfo =
  totalLiquidityUSD :: real
  lpTokensLocked :: bool
  lpLockDuration :: "real option"
  lpUnlockTime :: "int option"
  majorLPHolders :: "string list"

record Holder =
  address :: string
  percentage :: real
  isLP :: bool
  isBurn :: bool
  isDev :: bool

record HolderAnalysis =
  totalHolders :: real
  topHoldersConcentration :: real
  devWalletPercentage :: real
  burnedPercentage :: real
  lpPercentage :: real
  topHolders :: "Holder list"

record PriceInfo =
  currentPriceUSD :: real
  priceChange24h :: real
  volume24hUSD :: real
  marketCapUSD :: real

text \<open>
  The object-valued properties are read with \<open>?.\<close> throughout, so they are optional
  here; \<open>riskScore\<close> is optional because the simulator reads it with a default.
  \<open>metadata\<close> maps a key to its (string) value.
\<close>

record Token =
  mintAddress :: string
  symbol :: string
  description :: "string option"
  image :: "string option"
  createdAt :: int
  securityFlags :: "SecurityFlags option"
  liquidityInfo :: "LiquidityInfo option"
  holderAnalysis :: "HolderAnalysis option"
  riskScore :: "real option"
  riskLevel :: RiskLevel
  isActive :: bool
  metadata :: "(string \<Rightarrow> string option) option"
  priceInfo :: "PriceInfo option"

text \<open>\<open>token.securityFlags?.f\<close>, \<open>token.liquidityInfo?.lpTokensLocked\<close> as conditions.\<close>

definition secFlag :: "Token \<Rightarrow> (SecurityFlags \<Rightarrow> bool) \<Rightarrow> bool" where
  "secFlag token f = (case securityFlags token of None \<Rightarrow> False | Some s \<Rightarrow> f s)"

definition lpLockedFlag :: "Token \<Rightarrow> bool" where
  "lpLockedFlag token = (case liquidityInfo token of None \<Rightarrow> False | Some l \<Rightarrow> lpTokensLocked l)"

definition metaTruthy :: "Token \<Rightarrow> string \<Rightarrow> bool" where
  "metaTruthy token k =
     (case metadata token of None \<Rightarrow> False
      | Some m \<Rightarrow> (case m k of None \<Rightarrow> False | Some v \<Rightarrow> v \<noteq> []))"

definition liquidityUSDOf :: "Token \<Rightarrow> real" where
  "liquidityUSDOf token = jsOr (map_option totalLiquidityUSD (liquidityInfo token)) 0"

definition totalHoldersOf :: "Token \<Rightarrow> real" where
  "totalHoldersOf token = jsOr (map_option totalHolders (holderAnalysis token)) 0"

definition topHoldersOf :: "Token \<Rightarrow> Holder list" where
  "topHoldersOf token = (case holderAnalysis token of None \<Rightarrow> [] | Some h \<Rightarrow> topHolders h)"

section \<open>HoneypotDetectorService (honeypot-detector.service.ts)\<close>

text \<open>
  Each check returns its risk and its reasons. The evidence records that the checks also
  push are audit output only and are left out.
\<close>

record HoneypotAnalysis =
  isHoneypot :: bool
  confidence :: real
  reasons :: "string list"
  canSell :: bool
  sellTax :: real
  buyTax :: real

definition checkMintAuthority :: "Token \<Rightarrow> real \<times> string list" where
  "checkMintAuthority token =
     (if secFlag token hasUnlimitedMinting
      then (0 + 0.3, [''Token has unlimited minting capability''])
      else (0, []))"

definition checkFreezeAuthority :: "Token \<Rightarrow> real \<times> string list" where
  "checkFreezeAuthority token =
     (if secFlag token hasPausableFunctionality
      then (0 + 0.4, [''Token can be frozen by authority''])
      else (0, []))"

definition analyzeLiquidityPattern :: "Token \<Rightarrow> real \<times> string list" where
  "analyzeLiquidityPattern token =
     (let liquidityUSD = liquidityUSDOf token;
          (risk, rs) =
            (if liquidityUSD < 1000 then (0 + 0.2, [''Very low liquidity detected''])
             else if liquidityUSD < 5000 then (0 + 0.1, [''Low liquidity detected''])
             else (0, []))
      in if \<not> lpLockedFlag token then (risk + 0.15, rs @ [''LP tokens not locked''])
         else (risk, rs))"

definition analyzeHolderPattern :: "Token \<Rightarrow> real \<times> string list" where
  "analyzeHolderPattern token =
     (let concentration = jsOr (map_option topHoldersConcentration (holderAnalysis token)) 0;
          holders = totalHoldersOf token;
          (risk, rs) =
            (if concentration > 0.5 then (0 + 0.3, [''High holder concentration detected''])
             else if concentration > 0.3 then (0 + 0.1, [''Moderate holder concentration''])
             else (0, []))
      in if holders < 50 then (risk + 0.2, rs @ [''Very few token holders''])
         else (risk, rs))"

definition analyzeTransactionPattern :: "Token \<Rightarrow> real \<times> string list" where
  "analyzeTransactionPattern token =
     (let volume24h = jsOr (map_option volume24hUSD (priceInfo token)) 0;
          liquidity = liquidityUSDOf token;
          (risk, rs) =
            (if volume24h > 0 \<and> liquidity > 0 \<and> volume24h / liquidity > 10
             then (0 + 0.2, [''Unusually high volume to liquidity ratio''])
             else (0, []))
      in if volume24h = 0 then (risk + 0.1, rs @ [''No trading volume detected''])
         else (risk, rs))"

definition analyzePricePattern :: "Token \<Rightarrow> real \<times> string list" where
  "analyzePricePattern token =
     (let change = jsOr (map_option priceChange24h (priceInfo token)) 0
      in if \<bar>change\<bar> > 500 then (0 + 0.3, [''Extreme price volatility detected''])
         else if \<bar>change\<bar> > 100 then (0 + 0.1, [''High price volatility''])
         else (0, []))"

definition estimateSellTax :: "Token \<Rightarrow> real" where
  "estimateSellTax token =
     (if secFlag token hasBlacklist \<or> secFlag token hasPausableFunctionality then 100 else 0)"

definition estimateBuyTax :: "Token \<Rightarrow> real" where
  "estimateBuyTax token = 0"

definition HoneypotDetector_analyzeToken :: "Token \<Rightarrow> HoneypotAnalysis" where
  "HoneypotDetector_analyzeToken token =
     (let checks = [checkMintAuthority token, checkFreezeAuthority token,
                    analyzeLiquidityPattern token, analyzeHolderPattern token,
                    analyzeTransactionPattern token, analyzePricePattern token];
          score = foldl (\<lambda>acc c. acc + fst c) 0 checks;
          rs = concat (map snd checks);
          honeypot = (score > 0.6)
      in \<lparr> isHoneypot = honeypot,
           confidence = min score 1.0,
           reasons = filter (\<lambda>s. s \<noteq> []) rs,
           canSell = (\<not> honeypot),
           sellTax = estimateSellTax token,
           buyTax = estimateBuyTax token \<rparr>)"

text \<open>The result of the \<open>catch\<close> branch of \<open>analyzeToken\<close>.\<close>

definition honeypotAnalysisFailed :: HoneypotAnalysis where
  "honeypotAnalysisFailed =
     \<lparr> isHoneypot = False, confidence = 0, reasons = [''Analysis failed''],
       canSell = True, sellTax = 0, buyTax = 0 \<rparr>"

section \<open>RugpullDetectorService (rugpull-detector.service.ts)\<close>

datatype TimeToRug = LPUnlockDays real | Under24Hours | Days1to7 | Weeks1to4 | UnknownTime

record RugpullAnalysis =
  hasRugRisk :: bool
  riskLevel :: RiskLevel
  confidence :: real
  reasons :: "string list"
  timeToRug :: "TimeToRug option"

definition analyzeDevWallet :: "Token \<Rightarrow> real \<times> string list" where
  "analyzeDevWallet token =
     (let devPct = jsOr (map_option devWalletPercentage (holderAnalysis token)) 0;
          (risk, rs) =
            (if devPct > 0.2
             then (0 + 0.4, [''Developer holds significant portion of tokens''])
             else (0, []));
          suspiciousHolders =
            filter (\<lambda>h. percentage h > 0.1 \<and> \<not> isLP h \<and> \<not> isBurn h) (topHoldersOf token)
      in if length suspiciousHolders > 3
         then (risk + 0.2, rs @ [''Multiple large non-LP holders detected''])
         else (risk, rs))"

definition analyzeLiquidityRisk :: "int \<Rightarrow> Token \<Rightarrow> real \<times> string list" where
  "analyzeLiquidityRisk now token =
     (let liquidityUSD = liquidityUSDOf token;
          unlockTime = Option.bind (liquidityInfo token) lpUnlockTime;
          (risk, rs) =
            (if \<not> lpLockedFlag token
             then (0 + 0.5, [''LP tokens are not locked - rug risk HIGH''])
             else (case unlockTime of
                     None \<Rightarrow> (0, [])
                   | Some u \<Rightarrow>
                       (if real_of_int (u - now) / (1000 * 60 * 60 * 24) < 30
                        then (0 + 0.3, [''LP tokens unlock soon''])
                        else (0, []))));
          (risk, rs) =
            (if liquidityUSD < 5000
             then (risk + 0.2, rs @ [''Low liquidity makes rug easier''])
             else (risk, rs));
          lpPct = jsOr (map_option lpPercentage (holderAnalysis token)) 0
      in if lpPct < 0.7
         then (risk + 0.2, rs @ [''Low percentage of tokens in LP''])
         else (risk, rs))"

definition analyzeOwnership :: "Token \<Rightarrow> real \<times> string list" where
  "analyzeOwnership token =
     (let (risk, rs) =
            (if \<not> secFlag token ownershipRenounced
             then (0 + 0.3, [''Contract ownership not renounced''])
             else (0, []));
          (risk, rs) =
            (if secFlag token hasUnlimitedMinting
             then (risk + 0.3, rs @ [''Unlimited minting possible''])
             else (risk, rs))
      in if secFlag token hasBlacklist
         then (risk + 0.2, rs @ [''Token has blacklist functionality''])
         else (risk, rs))"

definition analyzeTokenAge :: "int \<Rightarrow> Token \<Rightarrow> real \<times> string list" where
  "analyzeTokenAge now token =
     (let tokenAge = real_of_int (now - createdAt token);
          ageInHours = tokenAge / (1000 * 60 * 60);
          ageInDays = ageInHours / 24
      in if ageInHours < 1 then (0 + 0.3, [''Token is extremely new (< 1 hour)''])
         else if ageInDays < 1 then (0 + 0.2, [''Token is very new (< 1 day)''])
         else if ageInDays < 7 then (0 + 0.1, [''Token is relatively new (< 1 week)''])
         else (0, []))"

definition hasDescriptionOf :: "Token \<Rightarrow> bool" where
  "hasDescriptionOf token = (case description token of None \<Rightarrow> False | Some d \<Rightarrow> length d > 0)"

definition analyzeSocialSignals :: "Token \<Rightarrow> real \<times> string list" where
  "analyzeSocialSignals token =
     (let socialScore =
            (if metaTruthy token ''website'' then 0.25 else 0)
            + (if metaTruthy token ''twitter'' then 0.25 else 0)
            + (if metaTruthy token ''telegram'' then 0.25 else 0)
            + (if hasDescriptionOf token then 0.25 else (0::real))
      in if socialScore < 0.25 then (0 + 0.3, [''No social presence or documentation''])
         else if socialScore < 0.5 then (0 + 0.1, [''Limited social presence''])
         else (0, []))"

definition analyzeMarketBehavior :: "Token \<Rightarrow> real \<times> string list" where
  "analyzeMarketBehavior token =
     (let volume24h = jsOr (map_option volume24hUSD (priceInfo token)) 0;
          marketCap = jsOr (map_option marketCapUSD (priceInfo token)) 0;
          change = jsOr (map_option priceChange24h (priceInfo token)) 0;
          (risk, rs) =
            (if volume24h = 0 then (0 + 0.2, [''No trading activity'']) else (0, []));
          (risk, rs) =
            (if change > 1000
             then (risk + 0.3, rs @ [''Extreme price pump detected''])
             else (risk, rs))
      in if marketCap > 0 \<and> volume24h > 0 \<and> volume24h / marketCap > 5
         then (risk + 0.2, rs @ [''Unusual volume to market cap ratio''])
         else (risk, rs))"

definition Rugpull_categorizeRiskLevel :: "real \<Rightarrow> RiskLevel" where
  "Rugpull_categorizeRiskLevel score =
     (if score \<ge> 0.8 then CRITICAL
      else if score \<ge> 0.6 then HIGH
      else if score \<ge> 0.4 then MEDIUM
      else LOW)"

definition estimateTimeToRug :: "int \<Rightarrow> real \<Rightarrow> Token \<Rightarrow> TimeToRug option" where
  "estimateTimeToRug now score token =
     (if score < 0.6 then None
      else (case Option.bind (liquidityInfo token) lpUnlockTime of
              Some u \<Rightarrow>
                Some (LPUnlockDays (max 0 (real_of_int (u - now) / (1000 * 60 * 60 * 24))))
            | None \<Rightarrow>
                (if score \<ge> 0.9 then Some Under24Hours
                 else if score \<ge> 0.8 then Some Days1to7
                 else if score \<ge> 0.6 then Some Weeks1to4
                 else Some UnknownTime)))"

definition RugpullDetector_analyzeToken :: "int \<Rightarrow> Token \<Rightarrow> RugpullAnalysis" where
  "RugpullDetector_analyzeToken now token =
     (let checks = [analyzeDevWallet token, analyzeLiquidityRisk now token,
                    analyzeOwnership token, analyzeTokenAge now token,
                    analyzeSocialSignals token, analyzeMarketBehavior token];
          score = foldl (\<lambda>acc c. acc + fst c) 0 checks;
          rs = concat (map snd checks)
      in \<lparr> hasRugRisk = (score > 0.4),
           riskLevel = Rugpull_categorizeRiskLevel score,
           confidence = min score 1.0,
           reasons = filter (\<lambda>s. s \<noteq> []) rs,
           timeToRug = estimateTimeToRug now score token \<rparr>)"

text \<open>The result of the \<open>catch\<close> branch of \<open>analyzeToken\<close>.\<close>

definition rugpullAnalysisFailed :: RugpullAnalysis where
  "rugpullAnalysisFailed =
     \<lparr> hasRugRisk = False, riskLevel = LOW, confidence = 0,
       reasons = [''Analysis failed''], timeToRug = None \<rparr>"

section \<open>RiskScoringService (risk-scoring.service.ts)\<close>

datatype Recommendation = AVOID | EXTREME_CAUTION | MONITOR | ACCEPTABLE

text \<open>
  The reasoning text of an assessment, by the template that \<open>generateReasoning\<close> picks
  and the values it inserts (the percentage before \<open>toFixed\<close>, the reasons before
  \<open>join\<close>).
\<close>

datatype AssessmentReasoning =
    HoneypotReasoning real "string list"
  | CriticalRugpullReasoning "string list"
  | HighRiskReasoning "string list"
  | MediumRiskReasoning
  | AcceptableReasoning

record ComponentScores =
  honeypot :: real
  rugpull :: real
  liquidity :: real
  holders :: real
  social :: real

record RiskAssessment =
  overallRiskScore :: real
  riskLevel :: RiskLevel
  confidence :: real
  primaryConcerns :: "string list"
  recommendation :: Recommendation
  reasoning :: AssessmentReasoning
  componentScores :: ComponentScores

text \<open>
  The two readonly thresholds of the service, and the constructor that reads them from
  the configuration: an absent (or empty) entry takes the default. The configured
  strings are taken as already parsed.
\<close>

record RiskScoringService =
  HIGH_RISK_THRESHOLD :: real
  MEDIUM_RISK_THRESHOLD :: real

record ConfigService =
  cfg_HIGH_RISK_THRESHOLD :: "real option"
  cfg_MEDIUM_RISK_THRESHOLD :: "real option"
  cfg_MIN_LIQUIDITY_USD :: "real option"

definition newRiskScoringService :: "ConfigService \<Rightarrow> RiskScoringService" where
  "newRiskScoringService cfg =
     \<lparr> HIGH_RISK_THRESHOLD =
         (case cfg_HIGH_RISK_THRESHOLD cfg of None \<Rightarrow> 0.7 | Some v \<Rightarrow> v),
       MEDIUM_RISK_THRESHOLD =
         (case cfg_MEDIUM_RISK_THRESHOLD cfg of None \<Rightarrow> 0.4 | Some v \<Rightarrow> v) \<rparr>"

text \<open>The local constant \<open>weights\<close> of \<open>calculateRiskScore\<close>.\<close>

definition weights :: ComponentScores where
  "weights = \<lparr> honeypot = 0.3, rugpull = 0.35, liquidity = 0.15, holders = 0.15, social = 0.05 \<rparr>"

definition calculateLiquidityRisk :: "Token \<Rightarrow> real" where
  "calculateLiquidityRisk token =
     (let liquidityUSD = liquidityUSDOf token;
          locked = lpLockedFlag token;
          risk = (if liquidityUSD < 1000 then 0 + 0.4
                  else if liquidityUSD < 5000 then 0 + 0.2
                  else if liquidityUSD < 10000 then 0 + 0.1
                  else 0);
          risk = (if \<not> locked then risk + 0.3 else risk);
          lpPct = jsOr (map_option lpPercentage (holderAnalysis token)) 0;
          risk = (if lpPct < 0.5 then risk + 0.2 else risk)
      in min 1.0 risk)"

definition calculateHoldersRisk :: "Token \<Rightarrow> real" where
  "calculateHoldersRisk token =
     (let holderCount = totalHoldersOf token;
          concentration = jsOr (map_option topHoldersConcentration (holderAnalysis token)) 0;
          devPct = jsOr (map_option devWalletPercentage (holderAnalysis token)) 0;
          risk = (if holderCount < 10 then 0 + 0.4
                  else if holderCount < 50 then 0 + 0.2
                  else if holderCount < 100 then 0 + 0.1
                  else 0);
          risk = (if concentration > 0.7 then risk + 0.4
                  else if concentration > 0.5 then risk + 0.2
                  else if concentration > 0.3 then risk + 0.1
                  else risk);
          risk = (if devPct > 0.2 then risk + 0.3
                  else if devPct > 0.1 then risk + 0.1
                  else risk)
      in min 1.0 risk)"

definition calculateSocialRisk :: "Token \<Rightarrow> real" where
  "calculateSocialRisk token =
     (let hasImage = (case image token of None \<Rightarrow> False | Some i \<Rightarrow> i \<noteq> []);
          hasSocials = (metaTruthy token ''twitter'' \<or> metaTruthy token ''telegram'');
          socialSignals =
            (if hasDescriptionOf token then 0.25 else 0)
            + (if hasImage then 0.25 else 0)
            + (if metaTruthy token ''website'' then 0.25 else 0)
            + (if hasSocials then 0.25 else (0::real))
      in max 0 (1 - socialSignals))"

definition categorizeRiskLevel :: "RiskScoringService \<Rightarrow> real \<Rightarrow> RiskLevel" where
  "categorizeRiskLevel svc score =
     (if score \<ge> HIGH_RISK_THRESHOLD svc
      then (if score \<ge> 0.9 then CRITICAL else HIGH)
      else if score \<ge> MEDIUM_RISK_THRESHOLD svc then MEDIUM
      else LOW)"

definition getRecommendation ::
  "real \<Rightarrow> HoneypotAnalysis \<Rightarrow> RugpullAnalysis \<Rightarrow> Recommendation" where
  "getRecommendation score honeypotAnalysis rugpullAnalysis =
     (if HoneypotAnalysis.isHoneypot honeypotAnalysis \<or> score \<ge> 0.8 then AVOID
      else if RugpullAnalysis.riskLevel rugpullAnalysis = CRITICAL \<or> score \<ge> 0.6
           then EXTREME_CAUTION
      else if score \<ge> 0.3 then MONITOR
      else ACCEPTABLE)"

definition calculateConfidence :: "HoneypotAnalysis \<Rightarrow> RugpullAnalysis \<Rightarrow> real" where
  "calculateConfidence honeypotAnalysis rugpullAnalysis =
     min 1.0 ((HoneypotAnalysis.confidence honeypotAnalysis
               + RugpullAnalysis.confidence rugpullAnalysis) / 2)"

definition identifyPrimaryConcerns ::
  "HoneypotAnalysis \<Rightarrow> RugpullAnalysis \<Rightarrow> Token \<Rightarrow> string list" where
  "identifyPrimaryConcerns honeypotAnalysis rugpullAnalysis token =
     (let liq = map_option totalLiquidityUSD (liquidityInfo token);
          conc = map_option topHoldersConcentration (holderAnalysis token);
          concerns =
            (if HoneypotAnalysis.isHoneypot honeypotAnalysis then [''HONEYPOT DETECTED''] else [])
            @ (if RugpullAnalysis.riskLevel rugpullAnalysis = CRITICAL
                  \<or> RugpullAnalysis.riskLevel rugpullAnalysis = HIGH
               then [''HIGH RUGPULL RISK''] else [])
            @ (case liq of
                 Some l \<Rightarrow> (if l \<noteq> 0 \<and> l < 5000 then [''LOW LIQUIDITY''] else [])
               | None \<Rightarrow> [])
            @ (if \<not> lpLockedFlag token then [''LP NOT LOCKED''] else [])
            @ (case conc of
                 Some c \<Rightarrow> (if c \<noteq> 0 \<and> c > 0.5 then [''HIGH HOLDER CONCENTRATION''] else [])
               | None \<Rightarrow> [])
            @ (if \<not> secFlag token ownershipRenounced then [''OWNERSHIP NOT RENOUNCED''] else [])
            @ (if secFlag token hasUnlimitedMinting then [''UNLIMITED MINTING''] else [])
      in take 5 concerns)"

definition generateReasoning ::
  "real \<Rightarrow> HoneypotAnalysis \<Rightarrow> RugpullAnalysis \<Rightarrow> Token \<Rightarrow> AssessmentReasoning" where
  "generateReasoning score honeypotAnalysis rugpullAnalysis token =
     (if HoneypotAnalysis.isHoneypot honeypotAnalysis
      then HoneypotReasoning (HoneypotAnalysis.confidence honeypotAnalysis * 100)
             (take 2 (HoneypotAnalysis.reasons honeypotAnalysis))
      else if RugpullAnalysis.riskLevel rugpullAnalysis = CRITICAL
      then CriticalRugpullReasoning (take 2 (RugpullAnalysis.reasons rugpullAnalysis))
      else if score \<ge> 0.7
      then HighRiskReasoning
             (take 2 (identifyPrimaryConcerns honeypotAnalysis rugpullAnalysis token))
      else if score \<ge> 0.4 then MediumRiskReasoning
      else AcceptableReasoning)"

definition calculateRiskScore ::
  "RiskScoringService \<Rightarrow> Token \<Rightarrow> HoneypotAnalysis \<Rightarrow> RugpullAnalysis \<Rightarrow> RiskAssessment" where
  "calculateRiskScore svc token honeypotAnalysis rugpullAnalysis =
     (let honeypotScore =
            (if HoneypotAnalysis.isHoneypot honeypotAnalysis
             then HoneypotAnalysis.confidence honeypotAnalysis else 0);
          rugpullScore =
            (if hasRugRisk rugpullAnalysis
             then RugpullAnalysis.confidence rugpullAnalysis else 0);
          liquidityScore = calculateLiquidityRisk token;
          holdersScore = calculateHoldersRisk token;
          socialScore = calculateSocialRisk token;
          overall = min 1.0
            (honeypotScore * honeypot weights
             + rugpullScore * rugpull weights
             + liquidityScore * liquidity weights
             + holdersScore * holders weights
             + socialScore * social weights)
      in \<lparr> overallRiskScore = overall,
           riskLevel = categorizeRiskLevel svc overall,
           confidence = calculateConfidence honeypotAnalysis rugpullAnalysis,
           primaryConcerns = identifyPrimaryConcerns honeypotAnalysis rugpullAnalysis token,
           recommendation = getRecommendation overall honeypotAnalysis rugpullAnalysis,
           reasoning = generateReasoning overall honeypotAnalysis rugpullAnalysis token,
           componentScores =
             \<lparr> honeypot = honeypotScore, rugpull = rugpullScore,
               liquidity = liquidityScore, holders = holdersScore,
               social = socialScore \<rparr> \<rparr>)"

section \<open>HolderAnalyzerService (holder-analyzer.service.ts)\<close>

datatype HolderDistribution = healthy | concerning | dangerous

datatype RiskFactor = Factor string | WhaleWalletsDetected nat

record DistributionMetrics =
  giniCoefficient :: real
  top10Percentage :: real
  top50Percentage :: real

text \<open>The analyzer's result type; the source calls it \<open>HolderAnalysis\<close> like the schema's.\<close>

record HolderAnalyzerResult =
  concentrationRisk :: real
  holderDistribution :: HolderDistribution
  whaleCount :: nat
  devWalletRisk :: real
  distributionMetrics :: DistributionMetrics
  riskFactors :: "RiskFactor list"

text \<open>The \<open>for\<close> loop of \<open>calculateGiniCoefficient\<close>, from index \<open>i\<close> with accumulator \<open>index\<close>.\<close>

function giniLoop :: "real list \<Rightarrow> nat \<Rightarrow> nat \<Rightarrow> real \<Rightarrow> real" where
  "giniLoop values n i index =
     (if i < n
      then giniLoop values n (i + 1)
             (index + (2 * (real i + 1) - real n - 1) * (values ! i))
      else index)"
  by pat_completeness auto
termination
  by (relation "measure (\<lambda>(values, n, i, index). n - i)") auto

declare giniLoop.simps [simp del]

definition calculateGiniCoefficient :: "real list \<Rightarrow> real" where
  "calculateGiniCoefficient values0 =
     (if length values0 = 0 then 0
      else (let values = sort values0;
                n = length values;
                total = foldl (\<lambda>a b. a + b) 0 values
            in if total = 0 then 0
               else giniLoop values n 0 0 / (real n * total)))"

definition calculateDistributionMetrics :: "Holder list \<Rightarrow> DistributionMetrics" where
  "calculateDistributionMetrics hs =
     (let validHolders = filter (\<lambda>h. \<not> isLP h \<and> \<not> isBurn h) hs
      in \<lparr> giniCoefficient = calculateGiniCoefficient (map percentage validHolders),
           top10Percentage = foldl (\<lambda>acc h. acc + percentage h) 0 (take 10 validHolders),
           top50Percentage = foldl (\<lambda>acc h. acc + percentage h) 0 (take 50 validHolders) \<rparr>)"

definition categorizeDistribution :: "real \<Rightarrow> real \<Rightarrow> HolderDistribution" where
  "categorizeDistribution risk holderCount =
     (if risk > 0.6 \<or> holderCount < 20 then dangerous
      else if risk > 0.3 \<or> holderCount < 100 then concerning
      else healthy)"

definition HolderAnalyzer_analyzeToken :: "Token \<Rightarrow> HolderAnalyzerResult" where
  "HolderAnalyzer_analyzeToken token =
     (let hs = topHoldersOf token;
          holderCount = totalHoldersOf token;
          concentration = jsOr (map_option topHoldersConcentration (holderAnalysis token)) 0;
          devPct = jsOr (map_option devWalletPercentage (holderAnalysis token)) 0;
          whales = length (filter (\<lambda>h. percentage h > 0.05 \<and> \<not> isLP h \<and> \<not> isBurn h) hs);
          (risk, fs) =
            (if concentration > 0.7 then (0.8, [Factor ''Extremely high holder concentration''])
             else if concentration > 0.5 then (0.6, [Factor ''High holder concentration''])
             else if concentration > 0.3 then (0.3, [Factor ''Moderate holder concentration''])
             else (0, []));
          (risk, fs) =
            (if holderCount < 10 then (risk + 0.2, fs @ [Factor ''Very few token holders''])
             else if holderCount < 50 then (risk + 0.1, fs @ [Factor ''Low number of holders''])
             else (risk, fs));
          (devRisk, fs) =
            (if devPct > 0.2 then (0.8, fs @ [Factor ''Developer holds large portion''])
             else if devPct > 0.1 then (0.4, fs @ [Factor ''Developer holds significant portion''])
             else (0, fs));
          fs = (if whales > 5 then fs @ [WhaleWalletsDetected whales] else fs)
      in \<lparr> concentrationRisk = min 1.0 risk,
           holderDistribution = categorizeDistribution risk holderCount,
           whaleCount = whales,
           devWalletRisk = devRisk,
           distributionMetrics = calculateDistributionMetrics hs,
           riskFactors = fs \<rparr>)"

text \<open>
  The formula of the specification: with \<open>x\<^sub>1 \<le> ... \<le> x\<^sub>n\<close> the ascending shares,
  \<open>G = (\<Sum>i=1..n. (2i - n - 1) x\<^sub>i) / (n \<Sum>x\<^sub>i)\<close>, and 0 for an empty list or a zero sum.
\<close>

definition giniSpec :: "real list \<Rightarrow> real" where
  "giniSpec shares =
     (let xs = sort shares; n = length xs
      in if n = 0 \<or> sum_list xs = 0 then 0
         else (\<Sum>i = 1..n. (2 * real i - real n - 1) * (xs ! (i - 1))) / (real n * sum_list xs))"

section \<open>ResponseSimulatorService (response-simulator.service.ts)\<close>

datatype SimulationAction = Avoid | Monitor | Investigate | Flag

datatype RiskTolerance = Conservative | Moderate | Aggressive

datatype Sentiment = Bearish | Neutral | Bullish

text \<open>
  The reasoning text of a decision, by its template and the numbers inserted into it
  (before \<open>toFixed\<close>); \<open>NoReasoning\<close> is the initial empty string.
\<close>

datatype DecisionReasoning =
    NoReasoning
  | HoneypotIdentified
  | CriticalRiskScore real
  | RiskExceedsThreshold real real
  | InsufficientLiquidity real
  | LPNotLocked
  | TooFewHolders real
  | AcceptableRiskProfile real
  | ModerateRiskSmallPosition real
  | RiskTooHigh

record SimulationDecision =
  action :: SimulationAction
  confidence :: real
  reasoning :: DecisionReasoning
  wouldInvest :: bool
  maxInvestmentUSD :: "real option"

record SimulationParameters =
  maxInvestmentUSD :: real
  riskTolerance :: RiskTolerance
  minLiquidityUSD :: real
  maxRiskScore :: real
  requireLPLocked :: bool
  minHolders :: real

record MarketConditions =
  volatilityIndex :: real
  overallSentiment :: Sentiment
  liquidityAvailable :: real

text \<open>The \<open>default\<close> branch (0.5) of the switch is outside the type of its argument.\<close>

fun getRiskMultiplier :: "RiskTolerance \<Rightarrow> real" where
  "getRiskMultiplier Conservative = 0.3"
| "getRiskMultiplier Moderate = 0.6"
| "getRiskMultiplier Aggressive = 1.0"

definition adjustConfidenceForMarketConditions :: "real \<Rightarrow> MarketConditions \<Rightarrow> real" where
  "adjustConfidenceForMarketConditions c marketConditions =
     (let adjustment =
            (if overallSentiment marketConditions = Bearish then 1.0 * 0.8
             else if overallSentiment marketConditions = Bullish then 1.0 * 1.1
             else 1.0);
          adjustment =
            (if volatilityIndex marketConditions > 0.8 then adjustment * 0.9 else adjustment)
      in min 1.0 (c * adjustment))"

text \<open>
  The multiplication, subtraction and division of the runtime, each a function of its two
  operands. In JavaScript they return the double nearest to the exact result, so
  \<open>2000 * (1 - 0.68) * 0.625\<close> is a little less than 400 and \<open>2000 * 0.2\<close> is 400.
  \<open>calculateInvestmentAmount\<close> takes them as a parameter and nothing is assumed about
  how they round; comparisons, \<open>Math.min\<close> and \<open>Math.max\<close> are exact. \<open>exactOps\<close>
  is the arithmetic of the reals.
\<close>

record FloatOps =
  fmul :: "real \<Rightarrow> real \<Rightarrow> real"
  fsub :: "real \<Rightarrow> real \<Rightarrow> real"
  fdiv :: "real \<Rightarrow> real \<Rightarrow> real"

definition exactOps :: FloatOps where
  "exactOps = \<lparr> fmul = (\<lambda>a b. a * b), fsub = (\<lambda>a b. a - b), fdiv = (\<lambda>a b. a / b) \<rparr>"

definition calculateInvestmentAmount ::
  "FloatOps \<Rightarrow> Token \<Rightarrow> MarketConditions \<Rightarrow> SimulationParameters \<Rightarrow> SimulationDecision" where
  "calculateInvestmentAmount fp token marketConditions parameters =
     (let score = jsOr (riskScore token) 0.5;
          liquidityUSD = liquidityUSDOf token;
          riskMultiplier = getRiskMultiplier (riskTolerance parameters);
          baseInvestment = fmul fp (SimulationParameters.maxInvestmentUSD parameters) riskMultiplier;
          riskAdjustment = fsub fp 1 score;
          liquidityAdjustment = min 1 (fdiv fp liquidityUSD 50000);
          adjustedInvestment = fmul fp (fmul fp baseInvestment riskAdjustment) liquidityAdjustment;
          amount = max 0 (min adjustedInvestment (fmul fp liquidityUSD 0.05))
      in if amount \<ge> fmul fp baseInvestment 0.5
         then \<lparr> action = Monitor, confidence = 0.7, reasoning = AcceptableRiskProfile amount,
                wouldInvest = True, maxInvestmentUSD = Some amount \<rparr>
         else if amount \<ge> fmul fp baseInvestment 0.2
         then \<lparr> action = Investigate, confidence = 0.6,
                reasoning = ModerateRiskSmallPosition amount,
                wouldInvest = True, maxInvestmentUSD = Some amount \<rparr>
         else \<lparr> action = Monitor, confidence = 0.5, reasoning = RiskTooHigh,
                wouldInvest = False, maxInvestmentUSD = Some amount \<rparr>)"

definition makeInvestmentDecision ::
  "FloatOps \<Rightarrow> Token \<Rightarrow> MarketConditions \<Rightarrow> SimulationParameters \<Rightarrow> SimulationDecision" where
  "makeInvestmentDecision fp token marketConditions parameters =
     (let score = jsOr (riskScore token) 1.0;
          liquidityUSD = liquidityUSDOf token;
          holderCount = totalHoldersOf token;
          lpLocked = lpLockedFlag token;
          d =
            (if secFlag token SecurityFlags.isHoneypot
             then \<lparr> action = Avoid, confidence = 0.95, reasoning = HoneypotIdentified,
                    wouldInvest = False, maxInvestmentUSD = None \<rparr>
             else if score \<ge> 0.8
             then \<lparr> action = Avoid, confidence = 0.9, reasoning = CriticalRiskScore (score * 100),
                    wouldInvest = False, maxInvestmentUSD = None \<rparr>
             else if score \<ge> maxRiskScore parameters
             then \<lparr> action = Flag, confidence = 0.8,
                    reasoning = RiskExceedsThreshold (score * 100) (maxRiskScore parameters * 100),
                    wouldInvest = False, maxInvestmentUSD = None \<rparr>
             else if liquidityUSD < minLiquidityUSD parameters
             then \<lparr> action = Avoid, confidence = 0.8, reasoning = InsufficientLiquidity liquidityUSD,
                    wouldInvest = False, maxInvestmentUSD = None \<rparr>
             else if requireLPLocked parameters \<and> \<not> lpLocked
             then \<lparr> action = Avoid, confidence = 0.85, reasoning = LPNotLocked,
                    wouldInvest = False, maxInvestmentUSD = None \<rparr>
             else if holderCount < minHolders parameters
             then \<lparr> action = Investigate, confidence = 0.7, reasoning = TooFewHolders holderCount,
                    wouldInvest = False, maxInvestmentUSD = None \<rparr>
             else calculateInvestmentAmount fp token marketConditions parameters)
      in d\<lparr> confidence :=
               adjustConfidenceForMarketConditions (SimulationDecision.confidence d)
                 marketConditions \<rparr>)"

definition getDefaultParameters :: "ConfigService \<Rightarrow> SimulationParameters" where
  "getDefaultParameters cfg =
     \<lparr> maxInvestmentUSD = 1000,
       riskTolerance = Moderate,
       minLiquidityUSD = (case cfg_MIN_LIQUIDITY_USD cfg of None \<Rightarrow> 1000 | Some v \<Rightarrow> v),
       maxRiskScore = (case cfg_MEDIUM_RISK_THRESHOLD cfg of None \<Rightarrow> 0.6 | Some v \<Rightarrow> v),
       requireLPLocked = True,
       minHolders = 50 \<rparr>"

text \<open>The third argument is optional in the source and defaults to \<open>getDefaultParameters()\<close>.\<close>

definition simulateResponse ::
  "FloatOps \<Rightarrow> ConfigService \<Rightarrow> Token \<Rightarrow> MarketConditions \<Rightarrow> SimulationParameters option
     \<Rightarrow> SimulationDecision" where
  "simulateResponse fp cfg token marketConditions parameters =
     makeInvestmentDecision fp token marketConditions
       (case parameters of None \<Rightarrow> getDefaultParameters cfg | Some p \<Rightarrow> p)"

fun getSimulationProfiles :: "RiskTolerance \<Rightarrow> SimulationParameters" where
  "getSimulationProfiles Conservative =
     \<lparr> maxInvestmentUSD = 500, riskTolerance = Conservative, minLiquidityUSD = 10000,
       maxRiskScore = 0.3, requireLPLocked = True, minHolders = 100 \<rparr>"
| "getSimulationProfiles Moderate =
     \<lparr> maxInvestmentUSD = 1000, riskTolerance = Moderate, minLiquidityUSD = 5000,
       maxRiskScore = 0.5, requireLPLocked = True, minHolders = 50 \<rparr>"
| "getSimulationProfiles Aggressive =
     \<lparr> maxInvestmentUSD = 2000, riskTolerance = Aggressive, minLiquidityUSD = 1000,
       maxRiskScore = 0.7, requireLPLocked = False, minHolders = 20 \<rparr>"

section \<open>BacktestingService (backtesting.service.ts)\<close>

record SimulationLog =
  tokenMintAddress :: string
  simulationTimestamp :: int
  riskScore :: real
  riskLevel :: RiskLevel
  decision :: SimulationDecision

text \<open>
  The store behind \<open>DatabaseService\<close>: the tokens by mint address and the persisted
  simulation logs.
\<close>

record Database =
  tokens :: "string \<Rightarrow> Token option"
  simulationLogs :: "SimulationLog list"

definition getToken :: "Database \<Rightarrow> string \<Rightarrow> Token option" where
  "getToken db mint = tokens db mint"

record BacktestParameters =
  startDate :: int
  endDate :: int
  initialBalance :: real
  riskTolerance :: RiskTolerance

record LevelPerformance =
  trades :: nat
  totalReturn :: real
  avgReturn :: real

text \<open>
  \<open>maxDrawdown\<close> is the one number of the result that can be infinite: the source divides
  by \<open>Math.abs(peak)\<close> while \<open>peak\<close> may still be 0.
\<close>

datatype jsnum = Num real | PosInfinity | NegInfinity

fun jsGreater :: "jsnum \<Rightarrow> jsnum \<Rightarrow> bool" where
  "jsGreater (Num a) (Num b) = (a > b)"
| "jsGreater PosInfinity PosInfinity = False"
| "jsGreater PosInfinity _ = True"
| "jsGreater _ PosInfinity = False"
| "jsGreater NegInfinity _ = False"
| "jsGreater (Num a) NegInfinity = True"

record BacktestResult =
  totalSimulations :: nat
  successRate :: real
  avgReturn :: real
  maxDrawdown :: jsnum
  sharpeRatio :: real
  profitableTrades :: nat
  lossTrades :: nat
  rugPullsAvoided :: nat
  honeypotsStopped :: nat
  performanceByRiskLevel :: "(RiskLevel \<times> LevelPerformance) list"

datatype error = Error string

record TradeOutcome =
  return :: "real option"
  avoided :: bool
  reason :: "string option"

text \<open>The two draws of \<open>Math.random()\<close> are the arguments \<open>r1\<close> and \<open>r2\<close>.\<close>

definition simulateTradeReturn :: "real \<Rightarrow> real \<Rightarrow> SimulationLog \<Rightarrow> real" where
  "simulateTradeReturn r1 r2 slog =
     (let investmentAmount = jsOr (SimulationDecision.maxInvestmentUSD (decision slog)) 0;
          score = SimulationLog.riskScore slog;
          randomFactor = (r1 - 0.5) * 2;
          riskFactor = (1 - score) * 0.5;
          marketFactor = r2 * 0.3 - 0.15;
          returnPercentage = (riskFactor + marketFactor + randomFactor * 0.2) * 100
      in (investmentAmount * returnPercentage) / 100)"

definition calculateTradeOutcome ::
  "Database \<Rightarrow> real \<Rightarrow> real \<Rightarrow> SimulationLog \<Rightarrow> TradeOutcome" where
  "calculateTradeOutcome db r1 r2 slog =
     (if action (decision slog) = Avoid
      then (let token = getToken db (tokenMintAddress slog)
            in if (case token of None \<Rightarrow> False | Some t \<Rightarrow> secFlag t SecurityFlags.isHoneypot)
               then \<lparr> return = None, avoided = True, reason = Some ''honeypot'' \<rparr>
               else if (case token of None \<Rightarrow> False | Some t \<Rightarrow> secFlag t hasRugPullRisk)
               then \<lparr> return = None, avoided = True, reason = Some ''rugpull'' \<rparr>
               else \<lparr> return = None, avoided = True, reason = Some ''risk_management'' \<rparr>)
      else if \<not> wouldInvest (decision slog)
              \<or> jsOr (SimulationDecision.maxInvestmentUSD (decision slog)) 0 = 0
      then \<lparr> return = None, avoided = True, reason = Some ''no_investment'' \<rparr>
      else \<lparr> return = Some (simulateTradeReturn r1 r2 slog), avoided = False, reason = None \<rparr>)"

text \<open>The accumulators of the loop of \<open>runBacktest\<close>.\<close>

record BacktestAcc =
  acc_totalReturn :: real
  acc_profitableTrades :: nat
  acc_lossTrades :: nat
  acc_rugPullsAvoided :: nat
  acc_honeypotsStopped :: nat
  acc_returns :: "real list"
  acc_performance :: "(RiskLevel \<times> LevelPerformance) list"

fun addTrade ::
  "RiskLevel \<Rightarrow> real \<Rightarrow> (RiskLevel \<times> LevelPerformance) list
     \<Rightarrow> (RiskLevel \<times> LevelPerformance) list" where
  "addTrade level r [] = [(level, \<lparr> trades = 0 + 1, totalReturn = 0 + r, avgReturn = 0 \<rparr>)]"
| "addTrade level r ((k, p) # rest) =
     (if k = level
      then (k, p\<lparr> trades := trades p + 1, totalReturn := totalReturn p + r \<rparr>) # rest
      else (k, p) # addTrade level r rest)"

text \<open>
  One iteration per log; \<open>rnd\<close> is the sequence of values \<open>Math.random()\<close> returns and
  \<open>k\<close> the number of draws made so far.
\<close>

fun backtestLoop ::
  "Database \<Rightarrow> (nat \<Rightarrow> real) \<Rightarrow> nat \<Rightarrow> SimulationLog list \<Rightarrow> BacktestAcc \<Rightarrow> BacktestAcc" where
  "backtestLoop db rnd k [] acc = acc"
| "backtestLoop db rnd k (slog # logs) acc =
     (let outcome = calculateTradeOutcome db (rnd k) (rnd (k + 1)) slog;
          drawn = (if avoided outcome then 0 else 2)
      in if avoided outcome
         then backtestLoop db rnd (k + drawn) logs
                (acc\<lparr> acc_rugPullsAvoided :=
                        (if reason outcome = Some ''rugpull''
                         then acc_rugPullsAvoided acc + 1 else acc_rugPullsAvoided acc),
                      acc_honeypotsStopped :=
                        (if reason outcome = Some ''honeypot''
                         then acc_honeypotsStopped acc + 1 else acc_honeypotsStopped acc) \<rparr>)
         else (case return outcome of
                 None \<Rightarrow> backtestLoop db rnd (k + drawn) logs acc
               | Some r \<Rightarrow>
                   backtestLoop db rnd (k + drawn) logs
                     (acc\<lparr> acc_totalReturn := acc_totalReturn acc + r,
                           acc_returns := acc_returns acc @ [r],
                           acc_profitableTrades :=
                             (if r > 0 then acc_profitableTrades acc + 1
                              else acc_profitableTrades acc),
                           acc_lossTrades :=
                             (if r > 0 then acc_lossTrades acc
                              else acc_lossTrades acc + 1),
                           acc_performance :=
                             addTrade (SimulationLog.riskLevel slog) r (acc_performance acc) \<rparr>)))"

text \<open>
  The loop of \<open>calculateMaxDrawdown\<close>. \<open>(peak - runningSum) / Math.abs(peak) || 0\<close> is
  0 for 0/0 (NaN is falsy) and for a zero quotient, and infinite for a non-zero numerator
  over a zero peak.
\<close>

definition drawdownOf :: "real \<Rightarrow> real \<Rightarrow> jsnum" where
  "drawdownOf peak runningSum =
     (if \<bar>peak\<bar> = 0
      then (if peak - runningSum = 0 then Num 0
            else if peak - runningSum > 0 then PosInfinity else NegInfinity)
      else Num ((peak - runningSum) / \<bar>peak\<bar>))"

fun drawdownLoop :: "real list \<Rightarrow> real \<Rightarrow> jsnum \<Rightarrow> real \<Rightarrow> jsnum" where
  "drawdownLoop [] peak maxDd runningSum = maxDd"
| "drawdownLoop (ret # rets) peak maxDd runningSum =
     (let runningSum = runningSum + ret;
          peak = (if runningSum > peak then runningSum else peak);
          drawdown = drawdownOf peak runningSum;
          maxDd = (if jsGreater drawdown maxDd then drawdown else maxDd)
      in drawdownLoop rets peak maxDd runningSum)"

definition calculateMaxDrawdown :: "real list \<Rightarrow> jsnum" where
  "calculateMaxDrawdown returns =
     (if length returns = 0 then Num 0 else drawdownLoop returns 0 (Num 0) 0)"

definition calculateSharpeRatio :: "real list \<Rightarrow> real" where
  "calculateSharpeRatio returns =
     (if length returns = 0 then 0
      else (let mean = foldl (\<lambda>s r. s + r) 0 returns / real (length returns);
                variance = foldl (\<lambda>s r. s + (r - mean)\<^sup>2) 0 returns / real (length returns);
                stdDev = sqrt variance
            in if stdDev = 0 then 0 else mean / stdDev))"

text \<open>
  The private helper of the service. It takes the range and returns the empty list; it
  does not read the store.
\<close>

definition getSimulationLogsInRange :: "Database \<Rightarrow> int \<Rightarrow> int \<Rightarrow> SimulationLog list" where
  "getSimulationLogsInRange db start finish = []"

text \<open>The part of \<open>runBacktest\<close> after the logs are fetched.\<close>

definition backtestOver ::
  "Database \<Rightarrow> (nat \<Rightarrow> real) \<Rightarrow> SimulationLog list \<Rightarrow> error + BacktestResult" where
  "backtestOver db rnd logs =
     (if length logs = 0
      then Inl (Error ''No simulation data available for the specified time range'')
      else (let acc = backtestLoop db rnd 0 logs
                        \<lparr> acc_totalReturn = 0, acc_profitableTrades = 0, acc_lossTrades = 0,
                          acc_rugPullsAvoided = 0, acc_honeypotsStopped = 0,
                          acc_returns = [], acc_performance = [] \<rparr>;
                perf = map (\<lambda>(level, p).
                              (level, p\<lparr> LevelPerformance.avgReturn :=
                                          totalReturn p / real (trades p) \<rparr>))
                         (acc_performance acc);
                totalTrades = acc_profitableTrades acc + acc_lossTrades acc
            in Inr \<lparr> totalSimulations = length logs,
                     successRate =
                       (if totalTrades > 0
                        then real (acc_profitableTrades acc) / real totalTrades else 0),
                     avgReturn =
                       (if totalTrades > 0 then acc_totalReturn acc / real totalTrades else 0),
                     maxDrawdown = calculateMaxDrawdown (acc_returns acc),
                     sharpeRatio = calculateSharpeRatio (acc_returns acc),
                     profitableTrades = acc_profitableTrades acc,
                     lossTrades = acc_lossTrades acc,
                     rugPullsAvoided = acc_rugPullsAvoided acc,
                     honeypotsStopped = acc_honeypotsStopped acc,
                     performanceByRiskLevel = perf \<rparr>))"

definition runBacktest ::
  "Database \<Rightarrow> (nat \<Rightarrow> real) \<Rightarrow> BacktestParameters \<Rightarrow> error + BacktestResult" where
  "runBacktest db rnd parameters =
     backtestOver db rnd
       (getSimulationLogsInRange db (startDate parameters) (endDate parameters))"

text \<open>
  What the specification means by the logs of a date range: the persisted logs whose
  timestamp lies in it.
\<close>

definition logsOfRange :: "Database \<Rightarrow> int \<Rightarrow> int \<Rightarrow> SimulationLog list" where
  "logsOfRange db start finish =
     filter (\<lambda>l. start \<le> simulationTimestamp l \<and> simulationTimestamp l \<le> finish)
       (simulationLogs db)"

text \<open>
  The guards that \<open>makeInvestmentDecision\<close> passes before it calls
  \<open>calculateInvestmentAmount\<close>: the negations of its six earlier conditions.
\<close>

definition reachesInvestmentBranch :: "Token \<Rightarrow> SimulationParameters \<Rightarrow> bool" where
  "reachesInvestmentBranch token parameters =
     (\<not> secFlag token SecurityFlags.isHoneypot
      \<and> \<not> jsOr (Token.riskScore token) 1.0 \<ge> 0.8
      \<and> \<not> jsOr (Token.riskScore token) 1.0 \<ge> maxRiskScore parameters
      \<and> \<not> liquidityUSDOf token < minLiquidityUSD parameters
      \<and> \<not> (requireLPLocked parameters \<and> \<not> lpLockedFlag token)
      \<and> \<not> totalHoldersOf token < minHolders parameters)"

section \<open>Example inputs\<close>

definition exampleFlags :: SecurityFlags where
  "exampleFlags =
     \<lparr> SecurityFlags.isHoneypot = False, hasRugPullRisk = False, ownershipRenounced = True,
       hasLockingMechanism = True, hasUnlimitedMinting = False, hasBlacklist = False,
       hasWhitelist = False, hasPausableFunctionality = False \<rparr>"

definition exampleHolders :: "Holder list" where
  "exampleHolders =
     [ \<lparr> address = ''pool'', percentage = 0.6, isLP = True, isBurn = False, isDev = False \<rparr>,
       \<lparr> address = ''a'', percentage = 0.3, isLP = False, isBurn = False, isDev = True \<rparr>,
       \<lparr> address = ''b'', percentage = 0.1, isLP = False, isBurn = False, isDev = False \<rparr>,
       \<lparr> address = ''dead'', percentage = 0.05, isLP = False, isBurn = True, isDev = False \<rparr>,
       \<lparr> address = ''c'', percentage = 0.2, isLP = False, isBurn = False, isDev = False \<rparr> ]"

definition exampleLiquidity :: LiquidityInfo where
  "exampleLiquidity =
     \<lparr> totalLiquidityUSD = 50000, lpTokensLocked = True, lpLockDuration = None,
       lpUnlockTime = None, majorLPHolders = [] \<rparr>"

text \<open>
  The healthy token of the specification's first scenario: no mint or freeze authority,
  50000 USD of locked liquidity, 500 holders, top holders at 10 percent.
\<close>

definition exampleToken :: Token where
  "exampleToken =
     \<lparr> mintAddress = ''mint1'', symbol = ''TKN'', description = Some ''a token'',
       image = Some ''img'', createdAt = 0,
       securityFlags = Some exampleFlags,
       liquidityInfo = Some exampleLiquidity,
       holderAnalysis = Some \<lparr> totalHolders = 500, topHoldersConcentration = 0.1,
                                devWalletPercentage = 0, burnedPercentage = 0,
                                lpPercentage = 0.8, topHolders = exampleHolders \<rparr>,
       riskScore = Some 0.1, riskLevel = LOW, isActive = True,
       metadata = Some (\<lambda>k. if k = ''website'' then Some ''https://example.org'' else None),
       priceInfo = Some \<lparr> currentPriceUSD = 1, priceChange24h = 5, volume24hUSD = 10000,
                           marketCapUSD = 1000000 \<rparr> \<rparr>"

definition honeypotToken :: Token where
  "honeypotToken =
     exampleToken\<lparr> securityFlags := Some (exampleFlags\<lparr> SecurityFlags.isHoneypot := True \<rparr>) \<rparr>"

text \<open>A bare token: no security flags, liquidity, holders or price information.\<close>

definition bareToken :: Token where
  "bareToken =
     exampleToken\<lparr> securityFlags := None, liquidityInfo := None, holderAnalysis := None,
                    priceInfo := None, metadata := None \<rparr>"

definition neutralMarket :: MarketConditions where
  "neutralMarket =
     \<lparr> volatilityIndex = 0.5, overallSentiment = Neutral, liquidityAvailable = 1000000 \<rparr>"

definition bearishMarket :: MarketConditions where
  "bearishMarket =
     \<lparr> volatilityIndex = 0.5, overallSentiment = Bearish, liquidityAvailable = 1000000 \<rparr>"

definition emptyConfig :: ConfigService where
  "emptyConfig =
     \<lparr> cfg_HIGH_RISK_THRESHOLD = None, cfg_MEDIUM_RISK_THRESHOLD = None,
       cfg_MIN_LIQUIDITY_USD = None \<rparr>"

text \<open>A store holding one persisted simulation log, written at time 5.\<close>

definition exampleLog :: SimulationLog where
  "exampleLog =
     \<lparr> tokenMintAddress = ''mint1'', simulationTimestamp = 5, riskScore = 0.1,
       riskLevel = LOW,
       decision = \<lparr> action = Monitor, confidence = 0.7, reasoning = AcceptableRiskProfile 540,
                    wouldInvest = True, maxInvestmentUSD = Some 540 \<rparr> \<rparr>"

definition exampleDatabase :: Database where
  "exampleDatabase =
     \<lparr> tokens = (\<lambda>m. if m = ''mint1'' then Some exampleToken else None),
       simulationLogs = [exampleLog] \<rparr>"

definition exampleRange :: BacktestParameters where
  "exampleRange =
     \<lparr> startDate = 0, endDate = 10, initialBalance = 10000, riskTolerance = Moderate \<rparr>"

text \<open>
  A token close to a threshold of the investment branch: with the aggressive preset the
  exact amount is 2000 * 0.32 * 0.625 = 400 = 0.2 * 2000.
\<close>

definition closeCallToken :: Token where
  "closeCallToken =
     exampleToken\<lparr> liquidityInfo := Some (exampleLiquidity\<lparr> totalLiquidityUSD := 31250 \<rparr>),
                    Token.riskScore := Some 0.68 \<rparr>"

text \<open>
  An arithmetic that returns, on the three operations that compute the adjusted amount of
  this token, the doubles that JavaScript returns (written as it prints them), and is
  exact elsewhere: \<open>1 - 0.68\<close> is 0.31999999999999995, \<open>2000\<close> times that is
  639.9999999999999, and that times \<open>0.625\<close> is 399.99999999999994.
\<close>

definition roundedOps :: FloatOps where
  "roundedOps =
     \<lparr> fmul = (\<lambda>a b. if a = 2000 \<and> b = 0.31999999999999995 then 639.9999999999999
                      else if a = 639.9999999999999 \<and> b = 0.625 then 399.99999999999994
                      else a * b),
       fsub = (\<lambda>a b. if a = 1 \<and> b = 0.68 then 0.31999999999999995 else a - b),
       fdiv = (\<lambda>a b. a / b) \<rparr>"

section \<open>Analyzer results and component scores\<close>

lemma honeypot_confidence_nonneg:
  "HoneypotAnalysis.isHoneypot (HoneypotDetector_analyzeToken t) \<Longrightarrow>
   0 \<le> HoneypotAnalysis.confidence (HoneypotDetector_analyzeToken t)"
  by (simp add: HoneypotDetector_analyzeToken_def Let_def)

lemma rugpull_confidence_nonneg:
  "hasRugRisk (RugpullDetector_analyzeToken now t) \<Longrightarrow>
   0 \<le> RugpullAnalysis.confidence (RugpullDetector_analyzeToken now t)"
  by (simp add: RugpullDetector_analyzeToken_def Let_def)

lemma analyzer_confidence_le_one:
  "HoneypotAnalysis.confidence (HoneypotDetector_analyzeToken t) \<le> 1
   \<and> RugpullAnalysis.confidence (RugpullDetector_analyzeToken now t) \<le> 1"
  by (simp add: HoneypotDetector_analyzeToken_def RugpullDetector_analyzeToken_def Let_def)

lemma calculateLiquidityRisk_bounds:
  "0 \<le> calculateLiquidityRisk t \<and> calculateLiquidityRisk t \<le> 1"
  by (simp add: calculateLiquidityRisk_def Let_def)

lemma calculateHoldersRisk_bounds:
  "0 \<le> calculateHoldersRisk t \<and> calculateHoldersRisk t \<le> 1"
  by (simp add: calculateHoldersRisk_def Let_def)

lemma calculateSocialRisk_bounds:
  "0 \<le> calculateSocialRisk t \<and> calculateSocialRisk t \<le> 1"
  by (simp add: calculateSocialRisk_def Let_def)

text \<open>
  The aggregate is bounded whenever a flagged analysis carries a non-negative confidence;
  the upper bound comes from the final \<open>Math.min(1.0, ...)\<close> alone.
\<close>

lemma overall_bounds_general:
  assumes "HoneypotAnalysis.isHoneypot h \<longrightarrow> 0 \<le> HoneypotAnalysis.confidence h"
      and "hasRugRisk r \<longrightarrow> 0 \<le> RugpullAnalysis.confidence r"
  shows "0 \<le> overallRiskScore (calculateRiskScore svc token h r)
       \<and> overallRiskScore (calculateRiskScore svc token h r) \<le> 1"
proof -
  have l: "0 \<le> calculateLiquidityRisk token" using calculateLiquidityRisk_bounds by simp
  have hd: "0 \<le> calculateHoldersRisk token" using calculateHoldersRisk_bounds by simp
  have so: "0 \<le> calculateSocialRisk token" using calculateSocialRisk_bounds by simp
  show ?thesis using assms l hd so
    by (simp add: calculateRiskScore_def Let_def weights_def)
qed

lemma bareToken_assessment:
  "overallRiskScore (calculateRiskScore (newRiskScoringService emptyConfig) bareToken
       (HoneypotDetector_analyzeToken bareToken) (RugpullDetector_analyzeToken 0 bareToken))
     = 0.765"
  by code_simp

section \<open>The aggregator\<close>

text \<open>
  Claim C1. For every token and every pair of results of the honeypot and rugpull
  analyzers (a result of \<open>analyzeToken\<close> on any token at any time, or the fallback of its
  \<open>catch\<close> branch), the assessment of \<open>calculateRiskScore\<close> has its overall score in
  [0,1]; the five weights are 0.30, 0.35, 0.15, 0.15 and 0.05 and sum to exactly 1.
\<close>

theorem overallRiskScore_in_unit_interval:
  assumes "h = HoneypotDetector_analyzeToken t1 \<or> h = honeypotAnalysisFailed"
      and "r = RugpullDetector_analyzeToken now t2 \<or> r = rugpullAnalysisFailed"
  shows "0 \<le> overallRiskScore (calculateRiskScore svc token h r)
       \<and> overallRiskScore (calculateRiskScore svc token h r) \<le> 1
       \<and> honeypot weights = 0.3 \<and> rugpull weights = 0.35 \<and> liquidity weights = 0.15
       \<and> holders weights = 0.15 \<and> social weights = 0.05
       \<and> honeypot weights + rugpull weights + liquidity weights + holders weights
           + social weights = 1"
proof -
  have h: "HoneypotAnalysis.isHoneypot h \<longrightarrow> 0 \<le> HoneypotAnalysis.confidence h"
    using assms(1) honeypot_confidence_nonneg by (auto simp: honeypotAnalysisFailed_def)
  have r: "hasRugRisk r \<longrightarrow> 0 \<le> RugpullAnalysis.confidence r"
    using assms(2) rugpull_confidence_nonneg by (auto simp: rugpullAnalysisFailed_def)
  from overall_bounds_general[OF h r] show ?thesis by (simp add: weights_def)
qed

theorem overallRiskScore_in_unit_interval_witness:
  "0 \<le> overallRiskScore (calculateRiskScore (newRiskScoringService emptyConfig) bareToken
       (HoneypotDetector_analyzeToken bareToken) (RugpullDetector_analyzeToken 0 bareToken))
   \<and> overallRiskScore (calculateRiskScore (newRiskScoringService emptyConfig) bareToken
       (HoneypotDetector_analyzeToken bareToken) (RugpullDetector_analyzeToken 0 bareToken)) \<le> 1
   \<and> overallRiskScore (calculateRiskScore (newRiskScoringService emptyConfig) bareToken
       (HoneypotDetector_analyzeToken bareToken) (RugpullDetector_analyzeToken 0 bareToken))
       = 0.765"
  using overallRiskScore_in_unit_interval
          [of "HoneypotDetector_analyzeToken bareToken" bareToken
              "RugpullDetector_analyzeToken 0 bareToken" 0 bareToken
              "newRiskScoringService emptyConfig" bareToken]
        bareToken_assessment
  by simp

text \<open>
  Claim C2. The risk level of an assessment is \<open>categorizeRiskLevel\<close> of its overall
  score, a function of the score and the two thresholds only: at or above the high
  threshold it is critical from 0.9 on and high below; otherwise at or above the medium
  threshold it is medium; otherwise low. Without configuration the thresholds are 0.7 and
  0.4.
\<close>

theorem riskLevel_step_function:
  "(let ra = calculateRiskScore svc token h r in
      RiskAssessment.riskLevel ra = categorizeRiskLevel svc (overallRiskScore ra))
   \<and> (score \<ge> HIGH_RISK_THRESHOLD svc \<and> score \<ge> 0.9
        \<longrightarrow> categorizeRiskLevel svc score = CRITICAL)
   \<and> (score \<ge> HIGH_RISK_THRESHOLD svc \<and> \<not> score \<ge> 0.9
        \<longrightarrow> categorizeRiskLevel svc score = HIGH)
   \<and> (\<not> score \<ge> HIGH_RISK_THRESHOLD svc \<and> score \<ge> MEDIUM_RISK_THRESHOLD svc
        \<longrightarrow> categorizeRiskLevel svc score = MEDIUM)
   \<and> (\<not> score \<ge> HIGH_RISK_THRESHOLD svc \<and> \<not> score \<ge> MEDIUM_RISK_THRESHOLD svc
        \<longrightarrow> categorizeRiskLevel svc score = LOW)
   \<and> HIGH_RISK_THRESHOLD (newRiskScoringService emptyConfig) = 0.7
   \<and> MEDIUM_RISK_THRESHOLD (newRiskScoringService emptyConfig) = 0.4"
  by (simp add: calculateRiskScore_def Let_def categorizeRiskLevel_def
        newRiskScoringService_def emptyConfig_def)

theorem riskLevel_step_function_witness:
  "categorizeRiskLevel (newRiskScoringService emptyConfig) 0.95 = CRITICAL
   \<and> categorizeRiskLevel (newRiskScoringService emptyConfig) 0.7 = HIGH
   \<and> categorizeRiskLevel (newRiskScoringService emptyConfig) 0.4 = MEDIUM
   \<and> categorizeRiskLevel (newRiskScoringService emptyConfig) 0.39 = LOW"
  using riskLevel_step_function [of "newRiskScoringService emptyConfig" exampleToken
          honeypotAnalysisFailed rugpullAnalysisFailed "0.95"]
        riskLevel_step_function [of "newRiskScoringService emptyConfig" exampleToken
          honeypotAnalysisFailed rugpullAnalysisFailed "0.7"]
        riskLevel_step_function [of "newRiskScoringService emptyConfig" exampleToken
          honeypotAnalysisFailed rugpullAnalysisFailed "0.4"]
        riskLevel_step_function [of "newRiskScoringService emptyConfig" exampleToken
          honeypotAnalysisFailed rugpullAnalysisFailed "0.39"]
  by simp

text \<open>
  Claim C3. The recommendation of an assessment is \<open>getRecommendation\<close> of its overall
  score and the two analyses: AVOID if the honeypot flag is set or the score is at least
  0.8; else EXTREME_CAUTION if the rugpull risk level is critical or the score is at
  least 0.6; else MONITOR if the score is at least 0.3; else ACCEPTABLE.
\<close>

theorem recommendation_rule:
  "(let ra = calculateRiskScore svc token h r in
      recommendation ra = getRecommendation (overallRiskScore ra) h r)
   \<and> (HoneypotAnalysis.isHoneypot h \<or> score \<ge> 0.8 \<longrightarrow> getRecommendation score h r = AVOID)
   \<and> (\<not> (HoneypotAnalysis.isHoneypot h \<or> score \<ge> 0.8)
        \<and> (RugpullAnalysis.riskLevel r = CRITICAL \<or> score \<ge> 0.6)
        \<longrightarrow> getRecommendation score h r = EXTREME_CAUTION)
   \<and> (\<not> (HoneypotAnalysis.isHoneypot h \<or> score \<ge> 0.8)
        \<and> \<not> (RugpullAnalysis.riskLevel r = CRITICAL \<or> score \<ge> 0.6)
        \<and> score \<ge> 0.3
        \<longrightarrow> getRecommendation score h r = MONITOR)
   \<and> (\<not> (HoneypotAnalysis.isHoneypot h \<or> score \<ge> 0.8)
        \<and> \<not> (RugpullAnalysis.riskLevel r = CRITICAL \<or> score \<ge> 0.6)
        \<and> \<not> score \<ge> 0.3
        \<longrightarrow> getRecommendation score h r = ACCEPTABLE)"
  by (simp add: calculateRiskScore_def Let_def getRecommendation_def)

theorem recommendation_rule_witness:
  "getRecommendation 0.1 (honeypotAnalysisFailed\<lparr> HoneypotAnalysis.isHoneypot := True \<rparr>)
       rugpullAnalysisFailed = AVOID
   \<and> getRecommendation 0.8 honeypotAnalysisFailed rugpullAnalysisFailed = AVOID
   \<and> getRecommendation 0.1 honeypotAnalysisFailed
        (rugpullAnalysisFailed\<lparr> RugpullAnalysis.riskLevel := CRITICAL \<rparr>) = EXTREME_CAUTION
   \<and> getRecommendation 0.6 honeypotAnalysisFailed rugpullAnalysisFailed = EXTREME_CAUTION
   \<and> getRecommendation 0.3 honeypotAnalysisFailed rugpullAnalysisFailed = MONITOR
   \<and> getRecommendation 0.29 honeypotAnalysisFailed rugpullAnalysisFailed = ACCEPTABLE"
  using recommendation_rule [of "newRiskScoringService emptyConfig" exampleToken
          "honeypotAnalysisFailed\<lparr> HoneypotAnalysis.isHoneypot := True \<rparr>"
          rugpullAnalysisFailed "0.1"]
        recommendation_rule [of "newRiskScoringService emptyConfig" exampleToken
          honeypotAnalysisFailed rugpullAnalysisFailed "0.8"]
        recommendation_rule [of "newRiskScoringService emptyConfig" exampleToken
          honeypotAnalysisFailed
          "rugpullAnalysisFailed\<lparr> RugpullAnalysis.riskLevel := CRITICAL \<rparr>" "0.1"]
        recommendation_rule [of "newRiskScoringService emptyConfig" exampleToken
          honeypotAnalysisFailed rugpullAnalysisFailed "0.6"]
        recommendation_rule [of "newRiskScoringService emptyConfig" exampleToken
          honeypotAnalysisFailed rugpullAnalysisFailed "0.3"]
        recommendation_rule [of "newRiskScoringService emptyConfig" exampleToken
          honeypotAnalysisFailed rugpullAnalysisFailed "0.29"]
  by (simp add: honeypotAnalysisFailed_def rugpullAnalysisFailed_def)

lemma liquidityUSDOf_update:
  "liquidityUSDOf (token\<lparr> liquidityInfo := Some (li\<lparr> totalLiquidityUSD := v \<rparr>) \<rparr>) = v"
  by (simp add: liquidityUSDOf_def jsOr_def)

text \<open>
  Claim C7. Raising \<open>liquidityInfo.totalLiquidityUSD\<close> of a token from \<open>a\<close> to
  \<open>b \<ge> a\<close>, every other field and both analyses unchanged, never increases the
  liquidity component score of the assessment.
\<close>

theorem liquidity_component_antitone:
  assumes "a \<le> b"
  shows "liquidity (componentScores (calculateRiskScore svc
            (token\<lparr> liquidityInfo := Some (li\<lparr> totalLiquidityUSD := b \<rparr>) \<rparr>) h r))
       \<le> liquidity (componentScores (calculateRiskScore svc
            (token\<lparr> liquidityInfo := Some (li\<lparr> totalLiquidityUSD := a \<rparr>) \<rparr>) h r))"
  using assms
  by (simp add: calculateRiskScore_def Let_def calculateLiquidityRisk_def
        liquidityUSDOf_update lpLockedFlag_def)

lemma liquidity_component_examples:
  "liquidity (componentScores (calculateRiskScore (newRiskScoringService emptyConfig)
       (exampleToken\<lparr> liquidityInfo := Some (exampleLiquidity\<lparr> totalLiquidityUSD := 7000 \<rparr>) \<rparr>)
       honeypotAnalysisFailed rugpullAnalysisFailed)) = 0.1
   \<and> liquidity (componentScores (calculateRiskScore (newRiskScoringService emptyConfig)
       (exampleToken\<lparr> liquidityInfo := Some (exampleLiquidity\<lparr> totalLiquidityUSD := 900 \<rparr>) \<rparr>)
       honeypotAnalysisFailed rugpullAnalysisFailed)) = 0.4"
  by code_simp

theorem liquidity_component_antitone_witness:
  "(900::real) \<le> 7000
   \<and> liquidity (componentScores (calculateRiskScore (newRiskScoringService emptyConfig)
       (exampleToken\<lparr> liquidityInfo := Some (exampleLiquidity\<lparr> totalLiquidityUSD := 7000 \<rparr>) \<rparr>)
       honeypotAnalysisFailed rugpullAnalysisFailed))
     \<le> liquidity (componentScores (calculateRiskScore (newRiskScoringService emptyConfig)
       (exampleToken\<lparr> liquidityInfo := Some (exampleLiquidity\<lparr> totalLiquidityUSD := 900 \<rparr>) \<rparr>)
       honeypotAnalysisFailed rugpullAnalysisFailed))
   \<and> liquidity (componentScores (calculateRiskScore (newRiskScoringService emptyConfig)
       (exampleToken\<lparr> liquidityInfo := Some (exampleLiquidity\<lparr> totalLiquidityUSD := 7000 \<rparr>) \<rparr>)
       honeypotAnalysisFailed rugpullAnalysisFailed)) = 0.1"
  using liquidity_component_antitone [where a = 900 and b = 7000
          and svc = "newRiskScoringService emptyConfig" and token = exampleToken
          and li = exampleLiquidity and h = honeypotAnalysisFailed
          and r = rugpullAnalysisFailed]
        liquidity_component_examples
  by simp

section \<open>The response simulator\<close>

lemma honeypotToken_flag: "secFlag honeypotToken SecurityFlags.isHoneypot"
  by (simp add: secFlag_def honeypotToken_def exampleFlags_def)

text \<open>
  Claim C4, as stated, fails: the confidence 0.95 of the honeypot branch is scaled by the
  market conditions before it is returned. In a bearish market the flagged token gets
  0.95 * 0.8 = 0.76.
\<close>

theorem honeypot_confidence_counterexample:
  "SimulationDecision.confidence
     (simulateResponse exactOps emptyConfig honeypotToken bearishMarket
        (Some (getSimulationProfiles Moderate)))
   \<noteq> 0.95"
  by (simp add: simulateResponse_def makeInvestmentDecision_def Let_def secFlag_def
        honeypotToken_def exampleToken_def exampleFlags_def bearishMarket_def
        adjustConfidenceForMarketConditions_def)

text \<open>
  Claim C4, amended. For every token whose \<open>securityFlags.isHoneypot\<close> is true, every
  market conditions and every profile (also the default one), \<open>simulateResponse\<close>
  returns the action avoid with \<open>wouldInvest = false\<close> and no investment amount; its
  confidence is 0.95 scaled by the sentiment factor (0.8 bearish, 1.1 bullish, 1 neutral)
  and by 0.9 when the volatility index exceeds 0.8, capped at 1. It is 0.95 when the
  sentiment is neutral and the volatility index is at most 0.8.
\<close>

theorem honeypot_avoid:
  assumes "secFlag token SecurityFlags.isHoneypot"
  shows "action (simulateResponse fp cfg token marketConditions parameters) = Avoid
       \<and> wouldInvest (simulateResponse fp cfg token marketConditions parameters) = False
       \<and> SimulationDecision.maxInvestmentUSD
            (simulateResponse fp cfg token marketConditions parameters) = None
       \<and> SimulationDecision.confidence
            (simulateResponse fp cfg token marketConditions parameters)
           = min 1 (0.95
               * ((if overallSentiment marketConditions = Bearish then 0.8
                   else if overallSentiment marketConditions = Bullish then 1.1 else 1)
                  * (if volatilityIndex marketConditions > 0.8 then 0.9 else 1)))
       \<and> (overallSentiment marketConditions = Neutral
            \<and> volatilityIndex marketConditions \<le> 0.8
            \<longrightarrow> SimulationDecision.confidence
                  (simulateResponse fp cfg token marketConditions parameters) = 0.95)"
  using assms
  by (simp add: simulateResponse_def makeInvestmentDecision_def Let_def
        adjustConfidenceForMarketConditions_def)

theorem honeypot_avoid_witness:
  "action (simulateResponse exactOps emptyConfig honeypotToken neutralMarket
             (Some (getSimulationProfiles Aggressive))) = Avoid
   \<and> wouldInvest (simulateResponse exactOps emptyConfig honeypotToken neutralMarket
             (Some (getSimulationProfiles Aggressive))) = False
   \<and> SimulationDecision.confidence
        (simulateResponse exactOps emptyConfig honeypotToken neutralMarket
             (Some (getSimulationProfiles Aggressive))) = 0.95"
  using honeypot_avoid [OF honeypotToken_flag, where fp = exactOps and cfg = emptyConfig
          and marketConditions = neutralMarket
          and parameters = "Some (getSimulationProfiles Aggressive)"]
  by (simp add: neutralMarket_def)

text \<open>
  In the investment branch the token's risk score is present and non-zero, so the two
  defaults (1.0 in \<open>makeInvestmentDecision\<close>, 0.5 in \<open>calculateInvestmentAmount\<close>)
  read the same number.
\<close>

lemma branch_riskScore:
  "reachesInvestmentBranch token p \<Longrightarrow>
   jsOr (Token.riskScore token) 0.5 = jsOr (Token.riskScore token) 1.0"
  by (auto simp: reachesInvestmentBranch_def jsOr_def split: option.splits if_splits)

lemma branch_decision:
  "reachesInvestmentBranch token p \<Longrightarrow>
   makeInvestmentDecision fp token mc p =
     (calculateInvestmentAmount fp token mc p)
       \<lparr> confidence := adjustConfidenceForMarketConditions
            (SimulationDecision.confidence (calculateInvestmentAmount fp token mc p)) mc \<rparr>"
  unfolding reachesInvestmentBranch_def makeInvestmentDecision_def Let_def
  by (elim conjE) (simp only: if_False)

text \<open>
  The guards describe the branch exactly: only \<open>calculateInvestmentAmount\<close> sets an
  investment amount.
\<close>

lemma investment_branch_iff:
  "(SimulationDecision.maxInvestmentUSD (makeInvestmentDecision fp token mc p) \<noteq> None)
     = reachesInvestmentBranch token p"
  by (simp add: reachesInvestmentBranch_def makeInvestmentDecision_def Let_def
        calculateInvestmentAmount_def)

text \<open>Every preset profile has a positive liquidity floor.\<close>

lemma presets_minLiquidity_nonneg: "0 \<le> minLiquidityUSD (getSimulationProfiles k)"
  by (cases k) simp_all

text \<open>Exact products of non-negative numbers are non-negative, as rounded ones are.\<close>

lemma exactOps_sign: "0 \<le> a \<Longrightarrow> 0 \<le> b \<Longrightarrow> 0 \<le> fmul exactOps a b"
  by (simp add: exactOps_def)

lemma roundedOps_sign: "0 \<le> a \<Longrightarrow> 0 \<le> b \<Longrightarrow> 0 \<le> fmul roundedOps a b"
  by (simp add: roundedOps_def)

lemma example_branches:
  "reachesInvestmentBranch exampleToken (getSimulationProfiles Conservative)
   \<and> reachesInvestmentBranch exampleToken (getSimulationProfiles Moderate)
   \<and> reachesInvestmentBranch (exampleToken\<lparr> Token.riskScore := Some 0.5 \<rparr>)
        (getSimulationProfiles Aggressive)
   \<and> reachesInvestmentBranch closeCallToken (getSimulationProfiles Aggressive)"
  by code_simp

text \<open>
  The healthy token under the three presets, in exact arithmetic: the bases are
  500 * 0.3 = 150, 1000 * 0.6 = 600 and 2000 * 1.0 = 2000.
\<close>

lemma example_decisions:
  "simulateResponse exactOps emptyConfig exampleToken neutralMarket
       (Some (getSimulationProfiles Conservative))
     = \<lparr> action = Monitor, confidence = 0.7, reasoning = AcceptableRiskProfile 135,
         wouldInvest = True, maxInvestmentUSD = Some 135 \<rparr>
   \<and> simulateResponse exactOps emptyConfig exampleToken neutralMarket
       (Some (getSimulationProfiles Moderate))
     = \<lparr> action = Monitor, confidence = 0.7, reasoning = AcceptableRiskProfile 540,
         wouldInvest = True, maxInvestmentUSD = Some 540 \<rparr>
   \<and> simulateResponse exactOps emptyConfig (exampleToken\<lparr> Token.riskScore := Some 0.5 \<rparr>)
       neutralMarket (Some (getSimulationProfiles Aggressive))
     = \<lparr> action = Monitor, confidence = 0.7, reasoning = AcceptableRiskProfile 1000,
         wouldInvest = True, maxInvestmentUSD = Some 1000 \<rparr>"
  by code_simp

text \<open>
  Rounding decides the branch. For the token at the threshold the exact arithmetic gives
  the amount 400 and the action investigate; with the operations rounded as doubles round
  them the amount is 399.99999999999994, below 400 = 2000 * 0.2, and the decision is
  monitor without investment, which is what the source returns.
\<close>

lemma rounding_decides_branch:
  "simulateResponse exactOps emptyConfig closeCallToken neutralMarket
       (Some (getSimulationProfiles Aggressive))
     = \<lparr> action = Investigate, confidence = 0.6, reasoning = ModerateRiskSmallPosition 400,
         wouldInvest = True, maxInvestmentUSD = Some 400 \<rparr>
   \<and> simulateResponse roundedOps emptyConfig closeCallToken neutralMarket
       (Some (getSimulationProfiles Aggressive))
     = \<lparr> action = Monitor, confidence = 0.5, reasoning = RiskTooHigh,
         wouldInvest = False, maxInvestmentUSD = Some 399.99999999999994 \<rparr>"
  by code_simp

text \<open>
  Claim C5. In the investment branch, for every token, market conditions and profile with
  a non-negative liquidity floor (every preset has one), and for every arithmetic whose
  products of non-negative numbers are non-negative: with the multiplier 0.3
  (conservative), 0.6 (moderate) or 1.0 (aggressive),
  \<open>base = profile.maxInvestmentUSD * multiplier\<close>,
  \<open>adjusted = base * (1 - riskScore) * min(1, liquidityUSD / 50000)\<close>,
  \<open>cap = liquidityUSD * 0.05\<close> and \<open>amount = max(0, min(adjusted, cap))\<close>, each operation
  as the runtime computes it, the decision carries \<open>maxInvestmentUSD = amount\<close>, which
  lies between 0 and the cap of 5 percent of the pool depth; the action is monitor with
  \<open>wouldInvest\<close> if \<open>amount \<ge> base * 0.5\<close>, investigate with \<open>wouldInvest\<close> if
  \<open>amount \<ge> base * 0.2\<close>, and monitor without \<open>wouldInvest\<close> otherwise.
\<close>

theorem investment_amount_rule:
  assumes branch: "reachesInvestmentBranch token p"
      and nonneg: "0 \<le> minLiquidityUSD p"
      and sign: "\<And>a b. 0 \<le> a \<Longrightarrow> 0 \<le> b \<Longrightarrow> 0 \<le> fmul fp a b"
      and score: "score = jsOr (Token.riskScore token) 1.0"
      and liq: "liquidityUSD = liquidityUSDOf token"
      and mult: "multiplier = (case SimulationParameters.riskTolerance p of
                                 Conservative \<Rightarrow> 0.3 | Moderate \<Rightarrow> 0.6 | Aggressive \<Rightarrow> 1.0)"
      and base: "base = fmul fp (SimulationParameters.maxInvestmentUSD p) multiplier"
      and adjusted: "adjusted = fmul fp (fmul fp base (fsub fp 1 score))
                                  (min 1 (fdiv fp liquidityUSD 50000))"
      and cap: "cap = fmul fp liquidityUSD 0.05"
      and amount: "amount = max 0 (min adjusted cap)"
      and d: "d = simulateResponse fp cfg token marketConditions (Some p)"
  shows "SimulationDecision.maxInvestmentUSD d = Some amount
       \<and> 0 \<le> amount \<and> amount \<le> cap
       \<and> (amount \<ge> fmul fp base 0.5 \<longrightarrow> action d = Monitor \<and> wouldInvest d)
       \<and> (\<not> amount \<ge> fmul fp base 0.5 \<and> amount \<ge> fmul fp base 0.2
            \<longrightarrow> action d = Investigate \<and> wouldInvest d)
       \<and> (\<not> amount \<ge> fmul fp base 0.5 \<and> \<not> amount \<ge> fmul fp base 0.2
            \<longrightarrow> action d = Monitor \<and> \<not> wouldInvest d)"
proof -
  have depth: "0 \<le> liquidityUSD"
    using branch nonneg liq by (simp add: reachesInvestmentBranch_def)
  have capnn: "0 \<le> cap"
    unfolding cap using depth by (intro sign) simp_all
  have m: "getRiskMultiplier (SimulationParameters.riskTolerance p) = multiplier"
    unfolding mult by (cases "SimulationParameters.riskTolerance p") simp_all
  have calc: "calculateInvestmentAmount fp token marketConditions p =
     (if amount \<ge> fmul fp base 0.5
      then \<lparr> action = Monitor, confidence = 0.7, reasoning = AcceptableRiskProfile amount,
             wouldInvest = True, maxInvestmentUSD = Some amount \<rparr>
      else if amount \<ge> fmul fp base 0.2
      then \<lparr> action = Investigate, confidence = 0.6,
             reasoning = ModerateRiskSmallPosition amount,
             wouldInvest = True, maxInvestmentUSD = Some amount \<rparr>
      else \<lparr> action = Monitor, confidence = 0.5, reasoning = RiskTooHigh,
             wouldInvest = False, maxInvestmentUSD = Some amount \<rparr>)"
    unfolding calculateInvestmentAmount_def Let_def amount cap adjusted base liq score
      branch_riskScore[OF branch] m ..
  have dec: "d = (calculateInvestmentAmount fp token marketConditions p)
       \<lparr> confidence := adjustConfidenceForMarketConditions
            (SimulationDecision.confidence
               (calculateInvestmentAmount fp token marketConditions p))
            marketConditions \<rparr>"
    unfolding d simulateResponse_def using branch_decision[OF branch] by simp
  have bound: "0 \<le> amount \<and> amount \<le> cap"
    using capnn unfolding amount by simp
  have fields: "SimulationDecision.maxInvestmentUSD d = Some amount
       \<and> (amount \<ge> fmul fp base 0.5 \<longrightarrow> action d = Monitor \<and> wouldInvest d)
       \<and> (\<not> amount \<ge> fmul fp base 0.5 \<and> amount \<ge> fmul fp base 0.2
            \<longrightarrow> action d = Investigate \<and> wouldInvest d)
       \<and> (\<not> amount \<ge> fmul fp base 0.5 \<and> \<not> amount \<ge> fmul fp base 0.2
            \<longrightarrow> action d = Monitor \<and> \<not> wouldInvest d)"
    unfolding dec calc by simp
  from bound fields show ?thesis by blast
qed

theorem investment_amount_rule_witness:
  "SimulationDecision.maxInvestmentUSD
     (simulateResponse exactOps emptyConfig exampleToken neutralMarket
        (Some (getSimulationProfiles Conservative)))
     = Some (max 0 (min (500 * 0.3 * (1 - 0.1) * min 1 (50000 / 50000)) (50000 * 0.05)))
   \<and> SimulationDecision.maxInvestmentUSD
     (simulateResponse exactOps emptyConfig exampleToken neutralMarket
        (Some (getSimulationProfiles Moderate)))
     = Some (max 0 (min (1000 * 0.6 * (1 - 0.1) * min 1 (50000 / 50000)) (50000 * 0.05)))
   \<and> SimulationDecision.maxInvestmentUSD
     (simulateResponse exactOps emptyConfig (exampleToken\<lparr> Token.riskScore := Some 0.5 \<rparr>)
        neutralMarket (Some (getSimulationProfiles Aggressive)))
     = Some (max 0 (min (2000 * 1.0 * (1 - 0.5) * min 1 (50000 / 50000)) (50000 * 0.05)))
   \<and> (1000::real) \<le> 50000 * 0.05
   \<and> action (simulateResponse exactOps emptyConfig
        (exampleToken\<lparr> Token.riskScore := Some 0.5 \<rparr>) neutralMarket
        (Some (getSimulationProfiles Aggressive))) = Monitor
   \<and> wouldInvest (simulateResponse exactOps emptyConfig
        (exampleToken\<lparr> Token.riskScore := Some 0.5 \<rparr>) neutralMarket
        (Some (getSimulationProfiles Aggressive)))
   \<and> action (simulateResponse roundedOps emptyConfig closeCallToken neutralMarket
        (Some (getSimulationProfiles Aggressive))) = Monitor
   \<and> \<not> wouldInvest (simulateResponse roundedOps emptyConfig closeCallToken neutralMarket
        (Some (getSimulationProfiles Aggressive)))"
  using investment_amount_rule
          [OF conjunct1[OF example_branches] presets_minLiquidity_nonneg exactOps_sign
              refl refl refl refl refl refl refl refl,
           where cfg = emptyConfig and marketConditions = neutralMarket]
        investment_amount_rule
          [OF conjunct1[OF conjunct2[OF example_branches]] presets_minLiquidity_nonneg
              exactOps_sign refl refl refl refl refl refl refl refl,
           where cfg = emptyConfig and marketConditions = neutralMarket]
        investment_amount_rule
          [OF conjunct1[OF conjunct2[OF conjunct2[OF example_branches]]]
              presets_minLiquidity_nonneg exactOps_sign
              refl refl refl refl refl refl refl refl,
           where cfg = emptyConfig and marketConditions = neutralMarket]
        investment_amount_rule
          [OF conjunct2[OF conjunct2[OF conjunct2[OF example_branches]]]
              presets_minLiquidity_nonneg roundedOps_sign
              refl refl refl refl refl refl refl refl,
           where cfg = emptyConfig and marketConditions = neutralMarket]
        example_decisions rounding_decides_branch
  by simp

text \<open>
  Claim C9. For every token that is not flagged as a honeypot and whose \<open>riskScore\<close> is
  absent or exactly 0, and for every market conditions and profile, the simulator reads
  the risk score as 1.0 and returns the action avoid with \<open>wouldInvest = false\<close> through
  the branch \<open>riskScore \<ge> 0.8\<close> (whose reasoning reports a score of 100 percent).
\<close>

theorem falsy_riskScore_is_maximal_risk:
  assumes "\<not> secFlag token SecurityFlags.isHoneypot"
      and "Token.riskScore token = None \<or> Token.riskScore token = Some 0"
  shows "jsOr (Token.riskScore token) 1.0 = 1.0
       \<and> action (simulateResponse fp cfg token marketConditions parameters) = Avoid
       \<and> wouldInvest (simulateResponse fp cfg token marketConditions parameters) = False
       \<and> SimulationDecision.reasoning
            (simulateResponse fp cfg token marketConditions parameters)
           = CriticalRiskScore 100"
  using assms
  by (auto simp add: simulateResponse_def makeInvestmentDecision_def Let_def jsOr_def)

lemma zero_risk_not_honeypot:
  "\<not> secFlag (exampleToken\<lparr> Token.riskScore := Some 0 \<rparr>) SecurityFlags.isHoneypot"
  by (simp add: secFlag_def exampleToken_def exampleFlags_def)

theorem falsy_riskScore_is_maximal_risk_witness:
  "action (simulateResponse exactOps emptyConfig (exampleToken\<lparr> Token.riskScore := Some 0 \<rparr>)
             neutralMarket (Some (getSimulationProfiles Aggressive))) = Avoid
   \<and> wouldInvest (simulateResponse exactOps emptyConfig
             (exampleToken\<lparr> Token.riskScore := Some 0 \<rparr>)
             neutralMarket (Some (getSimulationProfiles Aggressive))) = False
   \<and> action (simulateResponse exactOps emptyConfig (exampleToken\<lparr> Token.riskScore := None \<rparr>)
             neutralMarket (Some (getSimulationProfiles Aggressive))) = Avoid"
  using falsy_riskScore_is_maximal_risk [OF zero_risk_not_honeypot,
          where fp = exactOps and cfg = emptyConfig and marketConditions = neutralMarket
            and parameters = "Some (getSimulationProfiles Aggressive)"]
        falsy_riskScore_is_maximal_risk
          [where token = "exampleToken\<lparr> Token.riskScore := None \<rparr>"
            and fp = exactOps and cfg = emptyConfig and marketConditions = neutralMarket
            and parameters = "Some (getSimulationProfiles Aggressive)"]
  by (simp add: secFlag_def exampleToken_def exampleFlags_def)

section \<open>Backtesting\<close>

text \<open>
  The body of \<open>runBacktest\<close> fails exactly on an empty list of fetched logs, and
  otherwise returns a result that counts every log.
\<close>

lemma backtestOver_empty:
  "backtestOver db rnd []
     = Inl (Error ''No simulation data available for the specified time range'')"
  by (simp add: backtestOver_def)

lemma backtestOver_nonempty:
  "logs \<noteq> [] \<Longrightarrow>
   \<exists>res. backtestOver db rnd logs = Inr res \<and> totalSimulations res = length logs"
  by (simp add: backtestOver_def Let_def)

text \<open>
  Claim C10. For every store, every sequence of random draws and every backtest parameter
  set, \<open>getSimulationLogsInRange\<close> returns the empty list and \<open>runBacktest\<close> fails with
  the error 'No simulation data available for the specified time range'; no call
  returns a \<open>BacktestResult\<close>.
\<close>

theorem runBacktest_always_fails:
  "runBacktest db rnd parameters
     = Inl (Error ''No simulation data available for the specified time range'')
   \<and> getSimulationLogsInRange db (startDate parameters) (endDate parameters) = []
   \<and> (\<forall>res. runBacktest db rnd parameters \<noteq> Inr res)"
  by (simp add: runBacktest_def getSimulationLogsInRange_def backtestOver_def)

theorem runBacktest_always_fails_witness:
  "runBacktest \<lparr> tokens = (\<lambda>m. None), simulationLogs = [exampleLog, exampleLog] \<rparr>
     (\<lambda>k. 0.5) (exampleRange\<lparr> startDate := 5, endDate := 5 \<rparr>)
     = Inl (Error ''No simulation data available for the specified time range'')"
  using runBacktest_always_fails
          [of "\<lparr> tokens = (\<lambda>m. None), simulationLogs = [exampleLog, exampleLog] \<rparr>"
              "\<lambda>k. 0.5" "exampleRange\<lparr> startDate := 5, endDate := 5 \<rparr>"]
  by simp

text \<open>
  Claim C6 at a failing input: the store holds one log written at time 5, the requested
  range is 0 to 10, so the range has a log, and \<open>runBacktest\<close> still fails with the
  error reserved for a range without logs.
\<close>

theorem runBacktest_fails_despite_logs_in_range:
  "logsOfRange exampleDatabase (startDate exampleRange) (endDate exampleRange) = [exampleLog]
   \<and> runBacktest exampleDatabase rnd exampleRange
       = Inl (Error ''No simulation data available for the specified time range'')"
  by (simp add: logsOfRange_def exampleDatabase_def exampleRange_def exampleLog_def
        runBacktest_def getSimulationLogsInRange_def backtestOver_def)

section \<open>The Gini coefficient of the holder analyzer\<close>

lemma foldl_plus_sum_list: "foldl (\<lambda>a b. a + b) acc xs = acc + sum_list (xs :: real list)"
  by (induction xs arbitrary: acc) simp_all

lemma sum_list_insort: "sum_list (insort x xs) = x + sum_list (xs :: real list)"
  by (induction xs) simp_all

lemma sum_list_sort: "sum_list (sort xs) = sum_list (xs :: real list)"
  by (induction xs) (simp_all add: sum_list_insort)

lemma sort_empty_iff: "(sort xs = []) = (xs = ([] :: real list))"
  by (metis length_0_conv length_sort)

text \<open>The loop adds the rank-weighted terms from index \<open>i\<close> up to \<open>n - 1\<close>.\<close>

lemma giniLoop_sum:
  "i \<le> n \<Longrightarrow>
   giniLoop vs n i acc = acc + (\<Sum>j = i..<n. (2 * (real j + 1) - real n - 1) * (vs ! j))"
proof (induction vs n i acc rule: giniLoop.induct)
  case (1 vs n i acc)
  show ?case
  proof (cases "i < n")
    case True
    then have step: "giniLoop vs n i acc
        = giniLoop vs n (i + 1) (acc + (2 * (real i + 1) - real n - 1) * (vs ! i))"
      by (simp add: giniLoop.simps[of vs n i acc])
    have ih: "giniLoop vs n (i + 1) (acc + (2 * (real i + 1) - real n - 1) * (vs ! i))
        = (acc + (2 * (real i + 1) - real n - 1) * (vs ! i))
          + (\<Sum>j = i + 1..<n. (2 * (real j + 1) - real n - 1) * (vs ! j))"
      using "1.IH"[OF True] True by simp
    have split: "(\<Sum>j = i..<n. (2 * (real j + 1) - real n - 1) * (vs ! j))
        = (2 * (real i + 1) - real n - 1) * (vs ! i)
          + (\<Sum>j = i + 1..<n. (2 * (real j + 1) - real n - 1) * (vs ! j))"
      using True by (simp add: sum.atLeast_Suc_lessThan)
    show ?thesis unfolding step ih split by simp
  next
    case False
    with "1.prems" have "i = n" by simp
    then show ?thesis by (simp add: giniLoop.simps[of vs n n acc])
  qed
qed

text \<open>The ranks 1..n of the formula against the indices 0..n-1 of the loop.\<close>

lemma rank_sum_shift:
  "(\<Sum>i = 1..n. (2 * real i - real n - 1) * (xs ! (i - 1)))
   = (\<Sum>j = 0..<n. (2 * (real j + 1) - real n - 1) * (xs ! j))"
proof -
  have "(\<Sum>i = Suc 0..n. (2 * real i - real n - 1) * (xs ! (i - 1)))
      = (\<Sum>k<n. (2 * real (Suc k) - real n - 1) * (xs ! (Suc k - 1)))"
    by (rule sum.atLeast1_atMost_eq)
  then show ?thesis by (simp add: atLeast0LessThan algebra_simps)
qed

lemma calculateGiniCoefficient_giniSpec: "calculateGiniCoefficient xs = giniSpec xs"
proof (cases "xs = []")
  case True
  then show ?thesis by (simp add: calculateGiniCoefficient_def giniSpec_def)
next
  case False
  have loop: "giniLoop (sort xs) (length xs) 0 0
      = (\<Sum>i = 1..length xs. (2 * real i - real (length xs) - 1) * (sort xs ! (i - 1)))"
    unfolding rank_sum_shift using giniLoop_sum[of 0 "length xs" "sort xs" 0] by simp
  show ?thesis using False
    by (simp add: calculateGiniCoefficient_def giniSpec_def Let_def foldl_plus_sum_list loop)
qed

lemma analyzer_gini:
  "giniCoefficient (distributionMetrics (HolderAnalyzer_analyzeToken token))
     = calculateGiniCoefficient
         (map percentage (filter (\<lambda>h. \<not> isLP h \<and> \<not> isBurn h) (topHoldersOf token)))"
  by (simp add: HolderAnalyzer_analyzeToken_def Let_def calculateDistributionMetrics_def
        split: prod.splits)

lemma example_gini:
  "giniCoefficient (distributionMetrics (HolderAnalyzer_analyzeToken exampleToken)) = 2 / 9"
  by code_simp

lemma example_shares:
  "map percentage (filter (\<lambda>h. \<not> isLP h \<and> \<not> isBurn h) (topHoldersOf exampleToken))
     = [0.3, 0.1, 0.2]"
  by (simp add: topHoldersOf_def exampleToken_def exampleHolders_def)

text \<open>
  Claim C8. For every token, with \<open>shares\<close> the percentages of its holders that are
  neither LP nor burn addresses, the analyzer's \<open>giniCoefficient\<close> is the rank-weighted
  formula on the ascending shares: 0 when the list is empty or sums to 0, and otherwise
  \<open>(\<Sum>i=1..n. (2i - n - 1) x\<^sub>i) / (n \<Sum>x\<^sub>i)\<close> with \<open>x\<^sub>1 \<le> ... \<le> x\<^sub>n\<close> the sorted shares.
\<close>

theorem gini_matches_rank_weighted_formula:
  assumes "shares = map percentage (filter (\<lambda>h. \<not> isLP h \<and> \<not> isBurn h) (topHoldersOf token))"
      and "n = length shares"
  shows "giniCoefficient (distributionMetrics (HolderAnalyzer_analyzeToken token))
           = giniSpec shares
       \<and> (shares = [] \<or> sum_list shares = 0
            \<longrightarrow> giniCoefficient (distributionMetrics (HolderAnalyzer_analyzeToken token)) = 0)
       \<and> (shares \<noteq> [] \<and> sum_list shares \<noteq> 0
            \<longrightarrow> giniCoefficient (distributionMetrics (HolderAnalyzer_analyzeToken token))
                 = (\<Sum>i = 1..n. (2 * real i - real n - 1) * (sort shares ! (i - 1)))
                   / (real n * sum_list shares))"
proof -
  have g: "giniCoefficient (distributionMetrics (HolderAnalyzer_analyzeToken token))
             = giniSpec shares"
    unfolding assms(1) analyzer_gini by (rule calculateGiniCoefficient_giniSpec)
  have z: "shares = [] \<or> sum_list shares = 0 \<longrightarrow> giniSpec shares = 0"
    by (auto simp: giniSpec_def Let_def sum_list_sort)
  have f: "shares \<noteq> [] \<and> sum_list shares \<noteq> 0
            \<longrightarrow> giniSpec shares
                 = (\<Sum>i = 1..n. (2 * real i - real n - 1) * (sort shares ! (i - 1)))
                   / (real n * sum_list shares)"
    by (simp add: giniSpec_def Let_def sum_list_sort sort_empty_iff assms(2))
  from g z f show ?thesis by simp
qed

theorem gini_matches_rank_weighted_formula_witness:
  "giniCoefficient (distributionMetrics (HolderAnalyzer_analyzeToken exampleToken))
     = giniSpec [0.3, 0.1, 0.2]
   \<and> giniCoefficient (distributionMetrics (HolderAnalyzer_analyzeToken exampleToken)) = 2 / 9"
  using gini_matches_rank_weighted_formula [of "[0.3, 0.1, 0.2]" exampleToken 3]
        example_shares example_gini
  by simp

end
